theory Spec2Isabelle
  imports Complex_Main
begin

section \<open>Python values\<close>

text \<open>
  Content items are Python dictionaries of type \<^verbatim>\<open>Dict[str, Any]\<close>.  A value is one of the
  JSON-like values below.  A Python \<^verbatim>\<open>float\<close> is idealised as a real number (no rounding
  error, no infinities, no NaN); a \<^verbatim>\<open>str\<close> is a list of ASCII characters.  A dictionary is
  an association list in insertion order.
\<close>

datatype pyval =
    PNone
  | PBool bool
  | PInt int
  | PFloat real
  | PStr string
  | PList "pyval list"
  | PDict "(pyval \<times> pyval) list"

type_synonym pydict = "(pyval \<times> pyval) list"

text \<open>Exceptions are values: \<open>Inl e\<close> is a raised exception, \<open>Inr v\<close> a normal return.\<close>

datatype error =
  TypeError | AttributeError | ValueError | ZeroDivisionError | LibraryError | NotModelled

definition bind_err :: "error + 'a \<Rightarrow> ('a \<Rightarrow> error + 'b) \<Rightarrow> error + 'b" where
  "bind_err m f = (case m of Inl e \<Rightarrow> Inl e | Inr x \<Rightarrow> f x)"

fun truthy :: "pyval \<Rightarrow> bool" where
  "truthy PNone = False"
| "truthy (PBool b) = b"
| "truthy (PInt i) = (i \<noteq> 0)"
| "truthy (PFloat r) = (r \<noteq> 0)"
| "truthy (PStr s) = (s \<noteq> [])"
| "truthy (PList xs) = (xs \<noteq> [])"
| "truthy (PDict d) = (d \<noteq> [])"

text \<open>The numeric value of a number; \<^verbatim>\<open>bool\<close> is a subtype of \<^verbatim>\<open>int\<close>.\<close>

fun num_of :: "pyval \<Rightarrow> real option" where
  "num_of (PBool b) = Some (if b then 1 else 0)"
| "num_of (PInt i) = Some (of_int i)"
| "num_of (PFloat r) = Some r"
| "num_of PNone = None"
| "num_of (PStr s) = None"
| "num_of (PList xs) = None"
| "num_of (PDict d) = None"

fun is_float :: "pyval \<Rightarrow> bool" where
  "is_float (PFloat r) = True"
| "is_float v = False"

fun int_of :: "pyval \<Rightarrow> int" where
  "int_of (PBool b) = (if b then 1 else 0)"
| "int_of (PInt i) = i"
| "int_of v = 0"

text \<open>\<^verbatim>\<open>a or b\<close>\<close>

definition py_or :: "pyval \<Rightarrow> pyval \<Rightarrow> pyval" where
  "py_or a b = (if truthy a then a else b)"

text \<open>\<^verbatim>\<open>a == 0\<close>: only a number can equal zero; the comparison never raises.\<close>

definition eq_zero :: "pyval \<Rightarrow> bool" where
  "eq_zero a = (num_of a = Some 0)"

text \<open>\<^verbatim>\<open>a > 0\<close>: raises TypeError unless \<open>a\<close> is a number.\<close>

definition gt_zero :: "pyval \<Rightarrow> error + bool" where
  "gt_zero a = (case num_of a of Some x \<Rightarrow> Inr (0 < x) | None \<Rightarrow> Inl TypeError)"

text \<open>\<^verbatim>\<open>a + b\<close>\<close>

definition py_add :: "pyval \<Rightarrow> pyval \<Rightarrow> error + pyval" where
  "py_add a b =
     (case (a, b) of
        (PStr s, PStr t) \<Rightarrow> Inr (PStr (s @ t))
      | (PList xs, PList ys) \<Rightarrow> Inr (PList (xs @ ys))
      | _ \<Rightarrow>
         (case (num_of a, num_of b) of
            (Some x, Some y) \<Rightarrow>
              if is_float a \<or> is_float b then Inr (PFloat (x + y))
              else Inr (PInt (int_of a + int_of b))
          | _ \<Rightarrow> Inl TypeError))"

text \<open>\<^verbatim>\<open>a / b\<close> (true division): always a float.\<close>

definition py_truediv :: "pyval \<Rightarrow> pyval \<Rightarrow> error + real" where
  "py_truediv a b =
     (case (num_of a, num_of b) of
        (Some x, Some y) \<Rightarrow> if y = 0 then Inl ZeroDivisionError else Inr (x / y)
      | _ \<Rightarrow> Inl TypeError)"

text \<open>
  \<^verbatim>\<open>round(x, n)\<close> on a float: the nearest multiple of \<open>10^-n\<close>, ties to the even multiple.
\<close>

definition round_half_even :: "real \<Rightarrow> int" where
  "round_half_even x =
     (let f = \<lfloor>x\<rfloor>; d = x - of_int f
      in if d < 1 / 2 then f else if 1 / 2 < d then f + 1 else if even f then f else f + 1)"

definition py_round :: "real \<Rightarrow> nat \<Rightarrow> real" where
  "py_round x n = of_int (round_half_even (x * 10 ^ n)) / 10 ^ n"

text \<open>\<^verbatim>\<open>len(x)\<close>: defined on strings, lists and dictionaries.\<close>

fun py_len :: "pyval \<Rightarrow> error + nat" where
  "py_len (PStr s) = Inr (length s)"
| "py_len (PList xs) = Inr (length xs)"
| "py_len (PDict d) = Inr (length d)"
| "py_len v = Inl TypeError"

subsection \<open>Dictionaries\<close>

text \<open>
  Two keys are the same key when Python's \<^verbatim>\<open>==\<close> holds between them: numbers by value
  (\<^verbatim>\<open>1 == 1.0 == True\<close>), everything else structurally.
\<close>

definition key_eq :: "pyval \<Rightarrow> pyval \<Rightarrow> bool" where
  "key_eq a b =
     (case (num_of a, num_of b) of
        (Some x, Some y) \<Rightarrow> x = y
      | (None, None) \<Rightarrow> a = b
      | _ \<Rightarrow> False)"

text \<open>\<^verbatim>\<open>d.get(k)\<close>; \<open>None\<close> when the key is absent (\<^verbatim>\<open>k not in d\<close>).\<close>

fun dict_get :: "pydict \<Rightarrow> pyval \<Rightarrow> pyval option" where
  "dict_get [] k = None"
| "dict_get ((k', v) # d) k = (if key_eq k' k then Some v else dict_get d k)"

text \<open>\<^verbatim>\<open>d.get(k, default)\<close>\<close>

definition get_default :: "pydict \<Rightarrow> pyval \<Rightarrow> pyval \<Rightarrow> pyval" where
  "get_default d k dflt = (case dict_get d k of Some v \<Rightarrow> v | None \<Rightarrow> dflt)"

text \<open>\<^verbatim>\<open>d[k] = v\<close>: an existing key keeps its place, a new key goes last.\<close>

fun dict_set :: "pydict \<Rightarrow> pyval \<Rightarrow> pyval \<Rightarrow> pydict" where
  "dict_set [] k v = [(k, v)]"
| "dict_set ((k', v') # d) k v =
     (if key_eq k' k then (k', v) # d else (k', v') # dict_set d k v)"

subsection \<open>The environment\<close>

text \<open>
  What the code reads from outside the repository: the clock (\<^verbatim>\<open>datetime.now()\<close>, as seconds
  on the naive local time line; every read during one call sees the same instant), the
  standard library's \<^verbatim>\<open>isoformat\<close> and \<^verbatim>\<open>fromisoformat\<close> (the latter followed by
  \<^verbatim>\<open>.replace(tzinfo=None)\<close>; \<open>None\<close> is its ValueError), and TextBlob's sentiment (polarity,
  subjectivity; \<open>None\<close> when the library raises).
\<close>

record env =
  now :: real
  isoformat :: "real \<Rightarrow> string"
  fromisoformat :: "string \<Rightarrow> real option"
  textblob :: "string \<Rightarrow> (real \<times> real) option"

subsection \<open>Strings\<close>

text \<open>
  Character classes of \<^verbatim>\<open>re\<close> and \<^verbatim>\<open>str\<close> on ASCII text: \<^verbatim>\<open>\s\<close> and \<^verbatim>\<open>str.split\<close> take
  the characters 9-13 and 28-32 as white space, \<^verbatim>\<open>\w\<close> is a letter, a digit or the underscore.
\<close>

definition is_space :: "char \<Rightarrow> bool" where
  "is_space c = (let n = (of_char c :: nat) in (9 \<le> n \<and> n \<le> 13) \<or> (28 \<le> n \<and> n \<le> 32))"

definition is_word :: "char \<Rightarrow> bool" where
  "is_word c =
     (let n = (of_char c :: nat)
      in (48 \<le> n \<and> n \<le> 57) \<or> (65 \<le> n \<and> n \<le> 90) \<or> n = 95 \<or> (97 \<le> n \<and> n \<le> 122))"

text \<open>\<^verbatim>\<open>s.lower()\<close>\<close>

definition lower_char :: "char \<Rightarrow> char" where
  "lower_char c =
     (case map_of (zip ''ABCDEFGHIJKLMNOPQRSTUVWXYZ'' ''abcdefghijklmnopqrstuvwxyz'') c of
        Some l \<Rightarrow> l
      | None \<Rightarrow> c)"

definition lower :: "string \<Rightarrow> string" where
  "lower s = map lower_char s"

text \<open>\<^verbatim>\<open>s.strip()\<close>\<close>

definition strip :: "string \<Rightarrow> string" where
  "strip s = rev (dropWhile is_space (rev (dropWhile is_space s)))"

text \<open>
  \<^verbatim>\<open>s.split()\<close>: the maximal runs of characters that are not white space.  The first
  argument is the run collected so far.
\<close>

fun split_acc :: "string \<Rightarrow> string \<Rightarrow> string list" where
  "split_acc w [] = (if w = [] then [] else [w])"
| "split_acc w (c # cs) =
     (if is_space c then (if w = [] then split_acc [] cs else w # split_acc [] cs)
      else split_acc (w @ [c]) cs)"

definition split_ws :: "string \<Rightarrow> string list" where
  "split_ws s = split_acc [] s"

text \<open>\<^verbatim>\<open>' '.join(ws)\<close>\<close>

fun join_space :: "string list \<Rightarrow> string" where
  "join_space [] = []"
| "join_space [w] = w"
| "join_space (w # ws) = w @ '' '' @ join_space ws"

text \<open>\<^verbatim>\<open>k in s\<close> on strings: \<open>k\<close> occurs in \<open>s\<close> as a contiguous substring.\<close>

fun starts_with :: "string \<Rightarrow> string \<Rightarrow> bool" where
  "starts_with [] s = True"
| "starts_with (k # ks) [] = False"
| "starts_with (k # ks) (c # cs) = (k = c \<and> starts_with ks cs)"

fun contains :: "string \<Rightarrow> string \<Rightarrow> bool" where
  "contains k [] = (k = [])"
| "contains k (c # cs) = (starts_with k (c # cs) \<or> contains k cs)"

text \<open>
  One character as \<^verbatim>\<open>str()\<close> shows a value inside an f-string.  In \<open>process_single_item\<close>
  only a string or a falsy value reaches the f-string (a truthy title or description that
  is not a string has raised in \<open>clean_text\<close> before), and these are the cases written out.
\<close>

fun py_str :: "pyval \<Rightarrow> string" where
  "py_str (PStr s) = s"
| "py_str PNone = ''None''"
| "py_str (PBool b) = (if b then ''True'' else ''False'')"
| "py_str (PInt i) = ''0''"
| "py_str (PFloat r) = ''0.0''"
| "py_str (PList xs) = ''[]''"
| "py_str (PDict d) = ''{}''"

section \<open>backend/utils/helpers.py\<close>

text \<open>
  \<^verbatim>\<open>calculate_engagement_rate(likes, comments, shares, views)\<close>: \<^verbatim>\<open>views == 0\<close> is tested on
  the argument as passed, the three counts go through \<^verbatim>\<open>(x or 0)\<close>.
\<close>

definition calculate_engagement_rate :: "pyval \<Rightarrow> pyval \<Rightarrow> pyval \<Rightarrow> pyval \<Rightarrow> error + real" where
  "calculate_engagement_rate likes comments shares views =
     (if eq_zero views then Inr 0
      else
        bind_err (py_add (py_or likes (PInt 0)) (py_or comments (PInt 0))) (\<lambda>lc.
        bind_err (py_add lc (py_or shares (PInt 0))) (\<lambda>total_engagement.
        bind_err (py_truediv total_engagement views) (\<lambda>q.
        Inr (q * 100)))))"

text \<open>
  \<^verbatim>\<open>re.sub(r'http\S+|www\S+|https\S+', '', text)\<close>.  A match starts where \<^verbatim>\<open>http\<close> or
  \<^verbatim>\<open>www\<close> is followed by a character that is not white space, and takes every character up
  to the next white space.  The flag says whether the scan is inside a match.
\<close>

definition url_start :: "string \<Rightarrow> bool" where
  "url_start s =
     (list_ex (\<lambda>p. starts_with p s \<and> drop (length p) s \<noteq> [] \<and> \<not> is_space (hd (drop (length p) s)))
        [''http'', ''www'', ''https''])"

fun remove_urls :: "bool \<Rightarrow> string \<Rightarrow> string" where
  "remove_urls inside [] = []"
| "remove_urls True (c # cs) =
     (if is_space c then c # remove_urls False cs else remove_urls True cs)"
| "remove_urls False (c # cs) =
     (if url_start (c # cs) then remove_urls True cs else c # remove_urls False cs)"

text \<open>\<^verbatim>\<open>re.sub(r'[^\w\s]', ' ', text)\<close>\<close>

definition punctuation_to_space :: "string \<Rightarrow> string" where
  "punctuation_to_space s = map (\<lambda>c. if is_word c \<or> is_space c then c else CHR '' '') s"

text \<open>
  \<^verbatim>\<open>clean_text(text)\<close>: a falsy argument gives the empty string; \<^verbatim>\<open>re.sub\<close> raises TypeError
  on a truthy argument that is not a string.
\<close>

definition clean_string :: "string \<Rightarrow> string" where
  "clean_string s = strip (join_space (split_ws (punctuation_to_space (remove_urls False s))))"

definition clean_text :: "pyval \<Rightarrow> error + string" where
  "clean_text text =
     (if \<not> truthy text then Inr []
      else (case text of PStr s \<Rightarrow> Inr (clean_string s) | _ \<Rightarrow> Inl TypeError))"

text \<open>
  \<^verbatim>\<open>re.findall(r'#\w+', s)\<close>: each match is a \<^verbatim>\<open>#\<close> and the longest run of word characters
  after it, which is not empty.
\<close>

function find_hashtags :: "string \<Rightarrow> string list" where
  "find_hashtags [] = []"
| "find_hashtags (c # cs) =
     (if c = CHR ''#'' \<and> takeWhile is_word cs \<noteq> []
      then (c # takeWhile is_word cs) # find_hashtags (dropWhile is_word cs)
      else find_hashtags cs)"
  by pat_completeness auto
termination
  by (relation "measure length") (auto simp: length_dropWhile_le le_imp_less_Suc)

text \<open>\<^verbatim>\<open>extract_hashtags(text)\<close>: \<^verbatim>\<open>text.lower()\<close> exists on a string only.\<close>

definition extract_hashtags :: "pyval \<Rightarrow> error + pyval" where
  "extract_hashtags text =
     (case text of
        PStr s \<Rightarrow> Inr (PList (map (\<lambda>tag. PStr (drop 1 tag)) (find_hashtags (lower s))))
      | _ \<Rightarrow> Inl AttributeError)"

text \<open>\<^verbatim>\<open>analyze_sentiment(text)\<close>: the body of the \<^verbatim>\<open>try\<close>, then the function.\<close>

definition neutral_sentiment :: pydict where
  "neutral_sentiment =
     [(PStr ''polarity'', PFloat 0.0), (PStr ''subjectivity'', PFloat 0.0),
      (PStr ''label'', PStr ''neutral''), (PStr ''confidence'', PFloat 0.0)]"

definition analyze_sentiment_try :: "env \<Rightarrow> pyval \<Rightarrow> error + pydict" where
  "analyze_sentiment_try e text =
     bind_err (clean_text text) (\<lambda>cleaned.
       (case textblob e cleaned of
          None \<Rightarrow> Inl LibraryError
        | Some (polarity, subjectivity) \<Rightarrow>
            (let label = (if polarity > 0.1 then ''positive''
                          else if polarity < - 0.1 then ''negative''
                          else ''neutral'')
             in Inr [(PStr ''polarity'', PFloat polarity),
                     (PStr ''subjectivity'', PFloat subjectivity),
                     (PStr ''label'', PStr label),
                     (PStr ''confidence'', PFloat \<bar>polarity\<bar>)])))"

definition analyze_sentiment :: "env \<Rightarrow> pyval \<Rightarrow> error + pydict" where
  "analyze_sentiment e text =
     (case analyze_sentiment_try e text of
        Inr result \<Rightarrow> Inr result
      | Inl err \<Rightarrow> Inr neutral_sentiment)"

section \<open>backend/services/data_processor.py: the trending scorer\<close>

text \<open>\<^verbatim>\<open>s.replace('Z', '+00:00')\<close>\<close>

definition replace_Z :: "string \<Rightarrow> string" where
  "replace_Z s = concat (map (\<lambda>c. if c = CHR ''Z'' then ''+00:00'' else [c]) s)"

text \<open>
  \<^verbatim>\<open>_calculate_trending_score\<close> adds to the local \<^verbatim>\<open>score\<close> in four steps; each step below
  takes the score so far and returns the new one.

  Engagement factor (lines 80-84).
\<close>

definition engagement_step :: "pydict \<Rightarrow> real \<Rightarrow> error + real" where
  "engagement_step item score =
     (let engagement_rate = get_default item (PStr ''engagement_rate'') (PInt 0)
      in bind_err (gt_zero engagement_rate) (\<lambda>positive.
           if positive then
             (case num_of engagement_rate of
                Some r \<Rightarrow> Inr (score + min (r / 10.0) 1.0 * 0.4)
              | None \<Rightarrow> Inl TypeError)
           else Inr score))"

text \<open>
  Recency factor (lines 87-98).  \<open>parse_published\<close> is
  \<^verbatim>\<open>datetime.fromisoformat(item['published_date'].replace('Z', '+00:00'))\<close>: a value that is
  not a string has no \<^verbatim>\<open>replace\<close> taking two strings.
\<close>

definition parse_published :: "env \<Rightarrow> pyval \<Rightarrow> error + real" where
  "parse_published e v =
     (case v of
        PStr s \<Rightarrow>
          (case fromisoformat e (replace_Z s) of
             Some published \<Rightarrow> Inr published
           | None \<Rightarrow> Inl ValueError)
      | _ \<Rightarrow> Inl AttributeError)"

definition hours_old :: "env \<Rightarrow> real \<Rightarrow> real" where
  "hours_old e published = (now e - published) / 3600"

definition recency_score :: "real \<Rightarrow> real" where
  "recency_score h = 1.0 - h / 24.0"

text \<open>The body of the \<^verbatim>\<open>try\<close>.\<close>

definition recency_try :: "env \<Rightarrow> pydict \<Rightarrow> real \<Rightarrow> error + real" where
  "recency_try e item score =
     (case dict_get item (PStr ''published_date'') of
        None \<Rightarrow> Inr score
      | Some v \<Rightarrow>
          bind_err (parse_published e v) (\<lambda>published.
            if hours_old e published < 24
            then Inr (score + recency_score (hours_old e published) * 0.3)
            else Inr score))"

text \<open>The bare \<^verbatim>\<open>except\<close> catches every exception of the body.\<close>

definition recency_step :: "env \<Rightarrow> pydict \<Rightarrow> real \<Rightarrow> real" where
  "recency_step e item score =
     (case recency_try e item score of
        Inr score' \<Rightarrow> score'
      | Inl err \<Rightarrow> score + 0.15)"

text \<open>Hashtag factor (lines 101-105).\<close>

definition hashtag_step :: "pydict \<Rightarrow> real \<Rightarrow> error + real" where
  "hashtag_step item score =
     (let hashtags = get_default item (PStr ''hashtags'') (PList [])
      in if truthy hashtags then
           bind_err (py_len hashtags) (\<lambda>n. Inr (score + min (real n / 5.0) 1.0 * 0.2))
         else Inr score)"

text \<open>Sentiment factor (lines 108-114); \<^verbatim>\<open>sentiment.get\<close> exists on a dictionary only.\<close>

definition sentiment_step :: "pydict \<Rightarrow> real \<Rightarrow> error + real" where
  "sentiment_step item score =
     (let sentiment = get_default item (PStr ''sentiment'') (PDict [])
      in if truthy sentiment then
           (case sentiment of
              PDict d \<Rightarrow>
                (let polarity = get_default d (PStr ''polarity'') (PInt 0)
                 in bind_err (gt_zero polarity) (\<lambda>positive.
                      if positive then
                        (case num_of polarity of
                           Some p \<Rightarrow> Inr (score + min p 1.0 * 0.1)
                         | None \<Rightarrow> Inl TypeError)
                      else Inr score))
            | _ \<Rightarrow> Inl AttributeError)
         else Inr score)"

text \<open>\<^verbatim>\<open>DataProcessor._calculate_trending_score\<close>\<close>

definition dp_calculate_trending_score :: "env \<Rightarrow> pydict \<Rightarrow> error + real" where
  "dp_calculate_trending_score e item =
     bind_err (engagement_step item 0.0) (\<lambda>s1.
     (let s2 = recency_step e item s1 in
     bind_err (hashtag_step item s2) (\<lambda>s3.
     bind_err (sentiment_step item s3) (\<lambda>s4.
     Inr (py_round (min s4 1.0) 3)))))"

section \<open>backend/services/data_processor.py: enrichment of one item\<close>

text \<open>Lines 31-40: the engagement rate, set only when both keys are in the item.\<close>

definition engagement_enrich :: "pydict \<Rightarrow> error + pydict" where
  "engagement_enrich item =
     (if dict_get item (PStr ''view_count'') \<noteq> None \<and> dict_get item (PStr ''like_count'') \<noteq> None
      then
        (let views = py_or (get_default item (PStr ''view_count'') (PInt 0)) (PInt 0);
             likes = py_or (get_default item (PStr ''like_count'') (PInt 0)) (PInt 0);
             comments = py_or (get_default item (PStr ''comment_count'') (PInt 0)) (PInt 0)
         in bind_err (gt_zero views) (\<lambda>positive.
              if positive then
                bind_err (py_add likes comments) (\<lambda>lc.
                bind_err (py_truediv lc views) (\<lambda>q.
                Inr (dict_set item (PStr ''engagement_rate'') (PFloat (py_round (q * 100) 2)))))
              else Inr (dict_set item (PStr ''engagement_rate'') (PFloat 0.0))))
      else Inr item)"

text \<open>Lines 46-51: the cleaned title, and hashtags from the title when the item has none.\<close>

definition title_enrich :: "pyval \<Rightarrow> pydict \<Rightarrow> error + pydict" where
  "title_enrich title item =
     (if truthy title then
        bind_err (clean_text title) (\<lambda>cleaned.
          (let item' = dict_set item (PStr ''title_clean'') (PStr cleaned)
           in if \<not> truthy (get_default item' (PStr ''hashtags'') PNone)
              then bind_err (extract_hashtags title) (\<lambda>tags.
                     Inr (dict_set item' (PStr ''hashtags'') tags))
              else Inr item'))
      else Inr item)"

text \<open>Lines 53-54.\<close>

definition description_enrich :: "pyval \<Rightarrow> pydict \<Rightarrow> error + pydict" where
  "description_enrich description item =
     (if truthy description then
        bind_err (clean_text description) (\<lambda>cleaned.
          Inr (dict_set item (PStr ''description_clean'') (PStr cleaned)))
      else Inr item)"

text \<open>Line 57: \<^verbatim>\<open>f"{title} {description}".strip()\<close>\<close>

definition text_for_analysis :: "pyval \<Rightarrow> pyval \<Rightarrow> string" where
  "text_for_analysis title description = strip (py_str title @ '' '' @ py_str description)"

text \<open>Lines 58-68: the sentiment, with the caller's own \<^verbatim>\<open>except\<close>.\<close>

definition sentiment_enrich :: "env \<Rightarrow> string \<Rightarrow> pydict \<Rightarrow> pydict" where
  "sentiment_enrich e text item =
     (if text \<noteq> [] then
        (case analyze_sentiment e (PStr text) of
           Inr sentiment \<Rightarrow> dict_set item (PStr ''sentiment'') (PDict sentiment)
         | Inl err \<Rightarrow> dict_set item (PStr ''sentiment'') (PDict neutral_sentiment))
      else item)"

text \<open>\<^verbatim>\<open>DataProcessor.process_single_item\<close>\<close>

definition process_single_item :: "env \<Rightarrow> pydict \<Rightarrow> error + pydict" where
  "process_single_item e item =
     (let item1 = dict_set item (PStr ''processed_at'') (PStr (isoformat e (now e)))
      in bind_err (engagement_enrich item1) (\<lambda>item2.
           (let title = get_default item2 (PStr ''title'') (PStr []);
                description = get_default item2 (PStr ''description'') (PStr [])
            in bind_err (title_enrich title item2) (\<lambda>item3.
               bind_err (description_enrich description item3) (\<lambda>item4.
                 (let item5 = sentiment_enrich e (text_for_analysis title description) item4
                  in bind_err (dp_calculate_trending_score e item5) (\<lambda>score.
                       Inr (dict_set item5 (PStr ''trending_score'') (PFloat score)))))))))"


section \<open>backend/services/data_processor.py: aggregation\<close>

text \<open>\<^verbatim>\<open>DataProcessor._calculate_hashtag_trend_score\<close>\<close>

definition trending_keywords :: "string list" where
  "trending_keywords = [''viral'', ''trending'', ''hot'', ''breaking'', ''new'', ''latest'']"

definition frequency_score :: "int \<Rightarrow> int \<Rightarrow> real" where
  "frequency_score count total_items = of_int count / of_int total_items"

definition keyword_boost :: "string \<Rightarrow> real" where
  "keyword_boost hashtag =
     (if list_ex (\<lambda>keyword. contains keyword (lower hashtag)) trending_keywords then 1.5 else 1.0)"

definition dp_calculate_hashtag_trend_score :: "pyval \<Rightarrow> int \<Rightarrow> int \<Rightarrow> error + real" where
  "dp_calculate_hashtag_trend_score hashtag count total_items =
     (if total_items = 0 then Inr 0.0
      else (case hashtag of
              PStr h \<Rightarrow>
                Inr (py_round (min (frequency_score count total_items * keyword_boost h) 1.0) 3)
            | _ \<Rightarrow> Inl AttributeError))"

text \<open>
  The counting dictionaries of \<open>analyze_trends\<close>:
  \<^verbatim>\<open>counts[k] = counts.get(k, 0) + 1\<close>, which raises TypeError on an unhashable key.
\<close>

type_synonym counts = "(pyval \<times> int) list"

fun hashable :: "pyval \<Rightarrow> bool" where
  "hashable (PList xs) = False"
| "hashable (PDict d) = False"
| "hashable v = True"

fun count_incr :: "counts \<Rightarrow> pyval \<Rightarrow> counts" where
  "count_incr [] k = [(k, 1)]"
| "count_incr ((k', n) # c) k =
     (if key_eq k' k then (k', n + 1) # c else (k', n) # count_incr c k)"

definition count_key :: "counts \<Rightarrow> pyval \<Rightarrow> error + counts" where
  "count_key c k = (if hashable k then Inr (count_incr c k) else Inl TypeError)"

fun count_all :: "counts \<Rightarrow> pyval list \<Rightarrow> error + counts" where
  "count_all c [] = Inr c"
| "count_all c (k # ks) = bind_err (count_key c k) (\<lambda>c'. count_all c' ks)"

definition counts_dict :: "counts \<Rightarrow> pydict" where
  "counts_dict c = map (\<lambda>(k, n). (k, PInt n)) c"

text \<open>\<^verbatim>\<open>for x in v\<close>: the elements of a list, the characters of a string, the keys of a dictionary.\<close>

fun py_iter :: "pyval \<Rightarrow> error + pyval list" where
  "py_iter (PList xs) = Inr xs"
| "py_iter (PStr s) = Inr (map (\<lambda>c. PStr [c]) s)"
| "py_iter (PDict d) = Inr (map fst d)"
| "py_iter v = Inl TypeError"

text \<open>
  \<^verbatim>\<open>sorted(xs, key=..., reverse=True)\<close>: descending and stable.  \<open>lt x y\<close> is \<^verbatim>\<open>key(x) < key(y)\<close>.
\<close>

fun insert_desc :: "('a \<Rightarrow> 'a \<Rightarrow> bool) \<Rightarrow> 'a \<Rightarrow> 'a list \<Rightarrow> 'a list" where
  "insert_desc lt x [] = [x]"
| "insert_desc lt x (y # ys) = (if lt x y then y # insert_desc lt x ys else x # y # ys)"

definition sorted_desc :: "('a \<Rightarrow> 'a \<Rightarrow> bool) \<Rightarrow> 'a list \<Rightarrow> 'a list" where
  "sorted_desc lt xs = foldr (insert_desc lt) xs []"

text \<open>The state of the loop of \<open>analyze_trends\<close> (lines 129-153) and its body.\<close>

record trend_acc =
  hashtag_counts :: counts
  platform_counts :: counts
  sentiment_counts :: counts
  engagement_rates :: "pyval list"

definition count_sentiment :: "counts \<Rightarrow> pydict \<Rightarrow> error + counts" where
  "count_sentiment c item =
     (let sentiment = get_default item (PStr ''sentiment'') (PDict [])
      in if truthy sentiment then
           (case sentiment of
              PDict d \<Rightarrow> count_key c (get_default d (PStr ''label'') (PStr ''neutral''))
            | _ \<Rightarrow> Inl AttributeError)
         else Inr c)"

definition collect_rate :: "pyval list \<Rightarrow> pydict \<Rightarrow> pyval list" where
  "collect_rate rates item =
     (case dict_get item (PStr ''engagement_rate'') of
        None \<Rightarrow> rates
      | Some PNone \<Rightarrow> rates
      | Some engagement_rate \<Rightarrow> rates @ [engagement_rate])"

definition trend_item :: "trend_acc \<Rightarrow> pydict \<Rightarrow> error + trend_acc" where
  "trend_item acc item =
     bind_err (count_key (platform_counts acc) (get_default item (PStr ''platform'') (PStr ''unknown'')))
       (\<lambda>pc.
     bind_err (py_iter (get_default item (PStr ''hashtags'') (PList []))) (\<lambda>hashtags.
     bind_err (count_all (hashtag_counts acc) hashtags) (\<lambda>hc.
     bind_err (count_sentiment (sentiment_counts acc) item) (\<lambda>sc.
     Inr \<lparr> hashtag_counts = hc, platform_counts = pc, sentiment_counts = sc,
           engagement_rates = collect_rate (engagement_rates acc) item \<rparr>))))"

fun trend_loop :: "trend_acc \<Rightarrow> pydict list \<Rightarrow> error + trend_acc" where
  "trend_loop acc [] = Inr acc"
| "trend_loop acc (item # content_items) =
     bind_err (trend_item acc item) (\<lambda>acc'. trend_loop acc' content_items)"

text \<open>
  Lines 163-170.  \<^verbatim>\<open>sum\<close> starts from the integer 0, so it raises TypeError at the first rate
  that is not a number; after it every rate is a number.  \<^verbatim>\<open>max\<close> and \<^verbatim>\<open>min\<close> return the
  first extremal element, and \<^verbatim>\<open>round(x, 2)\<close> of an integer is that integer.
\<close>

fun py_sum :: "pyval \<Rightarrow> pyval list \<Rightarrow> error + pyval" where
  "py_sum acc [] = Inr acc"
| "py_sum acc (x # xs) = bind_err (py_add acc x) (\<lambda>acc'. py_sum acc' xs)"

definition num_val :: "pyval \<Rightarrow> real" where
  "num_val v = (case num_of v of Some r \<Rightarrow> r | None \<Rightarrow> 0)"

fun py_max :: "pyval \<Rightarrow> pyval list \<Rightarrow> pyval" where
  "py_max m [] = m"
| "py_max m (x # xs) = py_max (if num_val m < num_val x then x else m) xs"

fun py_min :: "pyval \<Rightarrow> pyval list \<Rightarrow> pyval" where
  "py_min m [] = m"
| "py_min m (x # xs) = py_min (if num_val x < num_val m then x else m) xs"

fun py_round2 :: "pyval \<Rightarrow> pyval" where
  "py_round2 (PFloat r) = PFloat (py_round r 2)"
| "py_round2 v = PInt (int_of v)"

definition engagement_statistics :: "pyval list \<Rightarrow> error + pydict" where
  "engagement_statistics rates =
     (case rates of
        [] \<Rightarrow> Inr []
      | r # rs \<Rightarrow>
          bind_err (py_sum (PInt 0) rates) (\<lambda>rate_sum.
          bind_err (py_truediv rate_sum (PInt (int (length rates)))) (\<lambda>average.
          Inr [(PStr ''average'', PFloat (py_round average 2)),
               (PStr ''max'', py_round2 (py_max r rs)),
               (PStr ''min'', py_round2 (py_min r rs)),
               (PStr ''count'', PInt (int (length rates)))])))"

text \<open>Lines 173-180: one entry for each of the top hashtags.\<close>

fun hashtag_entries :: "counts \<Rightarrow> int \<Rightarrow> error + pyval list" where
  "hashtag_entries [] total_items = Inr []"
| "hashtag_entries ((tag, count) # rest) total_items =
     bind_err (dp_calculate_hashtag_trend_score tag count total_items) (\<lambda>trend_score.
     bind_err (hashtag_entries rest total_items) (\<lambda>entries.
     Inr (PDict [(PStr ''hashtag'', tag), (PStr ''count'', PInt count),
                 (PStr ''trend_score'', PFloat trend_score)] # entries)))"

text \<open>\<^verbatim>\<open>DataProcessor.analyze_trends\<close>\<close>

definition analyze_trends :: "env \<Rightarrow> pydict list \<Rightarrow> error + pydict" where
  "analyze_trends e content_items =
     (if content_items = [] then
        Inr [(PStr ''trending_hashtags'', PList []),
             (PStr ''platform_distribution'', PDict []),
             (PStr ''sentiment_analysis'', PDict []),
             (PStr ''engagement_stats'', PDict [])]
      else
        bind_err (trend_loop \<lparr> hashtag_counts = [], platform_counts = [], sentiment_counts = [],
                               engagement_rates = [] \<rparr> content_items) (\<lambda>acc.
          (let trending_hashtags =
                 take 15 (sorted_desc (\<lambda>x y. snd x < snd y) (hashtag_counts acc))
           in bind_err (engagement_statistics (engagement_rates acc)) (\<lambda>engagement_stats.
              bind_err (hashtag_entries trending_hashtags (int (length content_items))) (\<lambda>entries.
              Inr [(PStr ''trending_hashtags'', PList entries),
                   (PStr ''platform_distribution'', PDict (counts_dict (platform_counts acc))),
                   (PStr ''sentiment_analysis'',
                      PDict [(PStr ''distribution'', PDict (counts_dict (sentiment_counts acc))),
                             (PStr ''total_analyzed'',
                                PInt (sum_list (map snd (sentiment_counts acc))))]),
                   (PStr ''engagement_stats'', PDict engagement_stats),
                   (PStr ''total_analyzed'', PInt (int (length content_items))),
                   (PStr ''analysis_timestamp'', PStr (isoformat e (now e)))])))))"












text \<open>
  The items the scorer accepts: the engagement rate and the polarity, where present, are
  numbers, the hashtags are falsy or have a length, the sentiment is falsy or a dictionary.
\<close>

definition scorable :: "pydict \<Rightarrow> bool" where
  "scorable item =
     (num_of (get_default item (PStr ''engagement_rate'') (PInt 0)) \<noteq> None \<and>
      (case get_default item (PStr ''hashtags'') (PList []) of
         PStr s \<Rightarrow> True | PList xs \<Rightarrow> True | PDict d \<Rightarrow> True | v \<Rightarrow> \<not> truthy v) \<and>
      (case get_default item (PStr ''sentiment'') (PDict []) of
         PDict d \<Rightarrow> num_of (get_default d (PStr ''polarity'') (PInt 0)) \<noteq> None
       | v \<Rightarrow> \<not> truthy v))"

section \<open>Example inputs\<close>

text \<open>
  An environment whose clock reads 2025-01-01T00:00:00 (second 0), whose parser knows one
  timestamp a day after that instant and one two days before it, and whose sentiment library
  fails on the text \<open>broken\<close> and finds everything else mildly positive.
\<close>

definition example_env :: env where
  "example_env =
     \<lparr> now = 0,
       isoformat = (\<lambda>t. if t = 0 then ''2025-01-01T00:00:00'' else ''another instant''),
       fromisoformat = (\<lambda>s. if s = ''2025-01-02T00:00:00+00:00'' then Some 86400
                             else if s = ''2024-12-30T00:00:00+00:00'' then Some (- 172800)
                             else None),
       textblob = (\<lambda>s. if s = ''broken'' then None else Some (0.5, 0.5)) \<rparr>"

definition future_item :: pydict where
  "future_item = [(PStr ''published_date'', PStr ''2025-01-02T00:00:00Z'')]"




text \<open>Extreme inputs: an engagement rate of 10000, fifty hashtags, a timestamp in the future.\<close>

definition extreme_item :: pydict where
  "extreme_item =
     [(PStr ''engagement_rate'', PInt 10000),
      (PStr ''hashtags'', PList (replicate 50 (PStr ''tag''))),
      (PStr ''published_date'', PStr ''2025-01-02T00:00:00Z'')]"







text \<open>
  One hashtag as the JSON text \<^verbatim>\<open>["viral"]\<close> (nine characters), and as a list.
\<close>

definition json_hashtags_item :: pydict where
  "json_hashtags_item =
     [(PStr ''hashtags'', PStr ([CHR ''['', CHR 0x22] @ ''viral'' @ [CHR 0x22, CHR '']'']))]"

definition list_hashtags_item :: pydict where
  "list_hashtags_item = [(PStr ''hashtags'', PList [PStr ''viral''])]"

section \<open>Theorems\<close>

lemma bind_err_Inr [simp]: "bind_err (Inr x) f = f x"
  by (simp add: bind_err_def)

lemma bind_err_Inl [simp]: "bind_err (Inl e) f = Inl e"
  by (simp add: bind_err_def)

lemmas score_defs =
  dp_calculate_trending_score_def engagement_step_def recency_step_def recency_try_def
  hashtag_step_def sentiment_step_def get_default_def key_eq_def gt_zero_def parse_published_def
  replace_Z_def hours_old_def recency_score_def py_round_def round_half_even_def

subsection \<open>Rounding\<close>

lemma round_half_even_ge:
  assumes "of_int m \<le> x"
  shows "m \<le> round_half_even x"
proof -
  have "m \<le> \<lfloor>x\<rfloor>" using assms by (simp add: le_floor_iff)
  then show ?thesis by (simp add: round_half_even_def Let_def)
qed

lemma round_half_even_le:
  assumes "x \<le> of_int m"
  shows "round_half_even x \<le> m"
proof (cases "x - of_int \<lfloor>x\<rfloor> < 1 / 2")
  case True
  have "\<lfloor>x\<rfloor> \<le> m" using assms by (simp add: floor_le_iff)
  with True show ?thesis by (simp add: round_half_even_def Let_def)
next
  case False
  then have "x \<noteq> of_int m" by auto
  with assms have "x < of_int m" by simp
  then have "\<lfloor>x\<rfloor> < m" by (simp add: floor_less_iff)
  then show ?thesis by (simp add: round_half_even_def Let_def)
qed

lemma py_round_bounds:
  assumes "0 \<le> x" "x \<le> 1"
  shows "0 \<le> py_round x 3" and "py_round x 3 \<le> 1"
proof -
  have "of_int 0 \<le> x * 10 ^ 3" using assms by simp
  then have "0 \<le> round_half_even (x * 10 ^ 3)" by (rule round_half_even_ge)
  then show "0 \<le> py_round x 3" by (simp add: py_round_def)
  have "x * 10 ^ 3 \<le> of_int 1000" using assms by simp
  then have "round_half_even (x * 10 ^ 3) \<le> 1000" by (rule round_half_even_le)
  then show "py_round x 3 \<le> 1" by (simp add: py_round_def)
qed

lemma py_round_grid: "\<exists>k::int. py_round x 3 = of_int k / 1000"
  by (auto simp: py_round_def)

subsection \<open>The trending scorer\<close>

text \<open>No step lowers the score.\<close>

lemma engagement_step_mono: "engagement_step item s = Inr s' \<Longrightarrow> s \<le> s'"
  by (auto simp: engagement_step_def Let_def gt_zero_def bind_err_def
      split: option.splits if_splits sum.splits)

lemma recency_step_mono: "s \<le> recency_step e item s"
  by (auto simp: recency_step_def recency_try_def recency_score_def bind_err_def
      split: option.splits sum.splits if_splits)

lemma hashtag_step_mono: "hashtag_step item s = Inr s' \<Longrightarrow> s \<le> s'"
  by (auto simp: hashtag_step_def Let_def bind_err_def split: option.splits if_splits sum.splits)

lemma sentiment_step_mono: "sentiment_step item s = Inr s' \<Longrightarrow> s \<le> s'"
  by (auto simp: sentiment_step_def Let_def gt_zero_def bind_err_def
      split: option.splits if_splits sum.splits pyval.splits)

lemma trending_score_range:
  assumes "dp_calculate_trending_score e item = Inr v"
  shows "0 \<le> v \<and> v \<le> 1 \<and> (\<exists>k::int. v = of_int k / 1000)"
proof -
  from assms obtain s1 s3 s4 where
    s1: "engagement_step item 0 = Inr s1" and
    s3: "hashtag_step item (recency_step e item s1) = Inr s3" and
    s4: "sentiment_step item s3 = Inr s4" and
    v: "v = py_round (min s4 1) 3"
    by (auto simp: dp_calculate_trending_score_def bind_err_def Let_def split: sum.splits)
  have "0 \<le> s1" using engagement_step_mono [OF s1] .
  also have "s1 \<le> recency_step e item s1" by (rule recency_step_mono)
  also have "\<dots> \<le> s3" using hashtag_step_mono [OF s3] .
  also have "s3 \<le> s4" using sentiment_step_mono [OF s4] .
  finally have "0 \<le> min s4 1" by simp
  moreover have "min s4 1 \<le> 1" by simp
  ultimately show ?thesis
    unfolding v using py_round_bounds py_round_grid by blast
qed

lemma trending_score_total:
  assumes "scorable item"
  shows "\<exists>v. dp_calculate_trending_score e item = Inr v"
  using assms
  by (auto simp: scorable_def dp_calculate_trending_score_def engagement_step_def hashtag_step_def
        sentiment_step_def gt_zero_def Let_def split: pyval.splits)

text \<open>
  C2 (sub-scores clamped before weighting).  The engagement, hashtag and sentiment sub-scores
  go through \<^verbatim>\<open>min(..., 1.0)\<close>; the recency sub-score does not.  For an item published 24
  hours after the clock's reading the recency sub-score is 2, and the item, which has nothing
  but its timestamp, scores 0.6, twice the recency weight of 0.3.
\<close>

theorem recency_score_unclamped:
  "recency_score (hours_old example_env 86400) = 2 \<and>
   dp_calculate_trending_score example_env future_item = Inr 0.6"
  by (simp add: score_defs example_env_def future_item_def)



text \<open>
  C4 (the score is in [0,1] and on the grid of thousandths).  Whatever the scorer returns is
  between 0 and 1 and a whole number of thousandths, and it does return on every item whose
  fields have the types the scorer reads.
\<close>

theorem trending_score_in_unit_interval:
  "(dp_calculate_trending_score e item = Inr v \<longrightarrow>
      0 \<le> v \<and> v \<le> 1 \<and> (\<exists>k::int. v = of_int k / 1000)) \<and>
   (scorable item \<longrightarrow> (\<exists>v'. dp_calculate_trending_score e item = Inr v'))"
  using trending_score_range trending_score_total by blast

theorem trending_score_in_unit_interval_witness:
  "scorable extreme_item \<and>
   dp_calculate_trending_score example_env extreme_item = Inr 1 \<and>
   (\<exists>k::int. (1::real) = of_int k / 1000)"
proof -
  have ok: "scorable extreme_item"
    by (simp add: scorable_def extreme_item_def get_default_def key_eq_def)
  have val: "dp_calculate_trending_score example_env extreme_item = Inr 1"
    by (simp add: score_defs example_env_def extreme_item_def)
  from ok val trending_score_in_unit_interval [of example_env extreme_item 1]
  show ?thesis by simp
qed

text \<open>
  C8 (empty batch).  Aggregating the empty batch returns the four-key summary with empty
  values.
\<close>

theorem analyze_trends_empty:
  "analyze_trends e [] =
     Inr [(PStr ''trending_hashtags'', PList []),
          (PStr ''platform_distribution'', PDict []),
          (PStr ''sentiment_analysis'', PDict []),
          (PStr ''engagement_stats'', PDict [])]"
  by (simp add: analyze_trends_def)

subsection \<open>The hashtag trend score\<close>










subsection \<open>Enrichment of one item\<close>

lemma key_eq_PStr [simp]: "key_eq a (PStr k) = (a = PStr k)"
  by (cases a) (auto simp: key_eq_def)













subsection \<open>Sentiment failures\<close>




lemma get_default_Nil [simp]: "get_default [] k dflt = dflt"
  by (simp add: get_default_def)

















subsection \<open>Items that are processed already\<close>







subsection \<open>Hashtags as JSON text\<close>

text \<open>
  C6 (hashtags that arrive as a JSON-encoded string).  Nothing in \<open>process_single_item\<close>,
  the scorer or \<open>analyze_trends\<close> decodes the string: the item keeps it, the hashtag factor
  takes its nine characters for nine hashtags (0.2 instead of the 0.04 of the one hashtag),
  and the aggregation counts its characters.
\<close>

theorem json_hashtags_read_by_character:
  "process_single_item example_env json_hashtags_item =
     Inr [(PStr ''hashtags'', PStr ([CHR ''['', CHR 0x22] @ ''viral'' @ [CHR 0x22, CHR '']''])),
          (PStr ''processed_at'', PStr ''2025-01-01T00:00:00''),
          (PStr ''trending_score'', PFloat 0.2)] \<and>
   dp_calculate_trending_score example_env json_hashtags_item = Inr 0.2 \<and>
   dp_calculate_trending_score example_env list_hashtags_item = Inr 0.04 \<and>
   map_sum id (\<lambda>r. dict_get r (PStr ''trending_hashtags''))
       (analyze_trends example_env [json_hashtags_item])
     = Inr (Some (PList
         [PDict [(PStr ''hashtag'', PStr [CHR 0x22]), (PStr ''count'', PInt 2),
                 (PStr ''trend_score'', PFloat 1)],
          PDict [(PStr ''hashtag'', PStr ''[''), (PStr ''count'', PInt 1),
                 (PStr ''trend_score'', PFloat 1)],
          PDict [(PStr ''hashtag'', PStr ''v''), (PStr ''count'', PInt 1),
                 (PStr ''trend_score'', PFloat 1)],
          PDict [(PStr ''hashtag'', PStr ''i''), (PStr ''count'', PInt 1),
                 (PStr ''trend_score'', PFloat 1)],
          PDict [(PStr ''hashtag'', PStr ''r''), (PStr ''count'', PInt 1),
                 (PStr ''trend_score'', PFloat 1)],
          PDict [(PStr ''hashtag'', PStr ''a''), (PStr ''count'', PInt 1),
                 (PStr ''trend_score'', PFloat 1)],
          PDict [(PStr ''hashtag'', PStr ''l''), (PStr ''count'', PInt 1),
                 (PStr ''trend_score'', PFloat 1)],
          PDict [(PStr ''hashtag'', PStr '']''), (PStr ''count'', PInt 1),
                 (PStr ''trend_score'', PFloat 1)]])) \<and>
   map_sum id (\<lambda>r. dict_get r (PStr ''trending_hashtags''))
       (analyze_trends example_env [list_hashtags_item])
     = Inr (Some (PList
         [PDict [(PStr ''hashtag'', PStr ''viral''), (PStr ''count'', PInt 1),
                 (PStr ''trend_score'', PFloat 1)]]))"
  by code_simp

subsection \<open>The engagement-rate calculator\<close>

text \<open>
  C5 (engagement-rate calculator).  The claim says that every null count is treated as 0 and
  that the calculator never fails on null inputs.  The code guards \<open>likes\<close>, \<open>comments\<close> and
  \<open>shares\<close> with \<^verbatim>\<open>or 0\<close> but not \<open>views\<close>: with \<open>views = None\<close> the test \<^verbatim>\<open>views == 0\<close> is
  false and the division raises TypeError, where the claim promises 0.0.
\<close>

theorem calculate_engagement_rate_null_views:
  "calculate_engagement_rate (PInt 10) (PInt 5) (PInt 2) PNone = Inl TypeError"
  by (simp add: calculate_engagement_rate_def eq_zero_def py_or_def py_add_def py_truediv_def)

end
